theory Spec2Isabelle
  imports Main "HOL-Library.Word"
begin

section \<open>The grid controller of wasm-sudoku (www/src/index.ts)\<close>

text \<open>
  The page script keeps 81 text inputs, the engine's 81-byte cell buffer and the set of
  clue positions in step. The script is modelled by explicit state passing: every
  function of \<^verbatim>\<open>index.ts\<close> becomes a function from the page state to the page state.
  A JavaScript string is the list of its UTF-16 code units; one \<^typ>\<open>char\<close> stands for
  one code unit, so a character outside the Basic Multilingual Plane is two of them.
  A JavaScript number is \<^typ>\<open>int option\<close> with \<open>None\<close> for \<^verbatim>\<open>NaN\<close>: the script
  only ever produces integers and \<^verbatim>\<open>NaN\<close>.
\<close>

subsection \<open>The pieces of the JavaScript library the script calls\<close>

type_synonym number = "int option"

text \<open>
  \<^verbatim>\<open>String.prototype.substr(start, length)\<close>: a negative start counts from the end of the
  string, and both ends are clamped to the string.
\<close>

definition substr :: "'a list \<Rightarrow> int \<Rightarrow> int \<Rightarrow> 'a list" where
  "substr s start len =
     (let size = int (length s);
          intStart = (if start < 0 then max (size + start) 0 else min start size);
          intLength = min (max len 0) size;
          intEnd = min (intStart + intLength) size
      in take (nat (intEnd - intStart)) (drop (nat intStart) s))"

text \<open>The white space that \<^verbatim>\<open>parseInt\<close> and \<^verbatim>\<open>Number\<close> strip, as far as one code unit below 256 goes.\<close>

definition isWhiteSpace :: "char \<Rightarrow> bool" where
  "isWhiteSpace c = (of_char c \<in> {9, 10, 11, 12, 13, 32, 160 :: nat})"

definition isDigit :: "char \<Rightarrow> bool" where
  "isDigit c = (48 \<le> (of_char c :: nat) \<and> (of_char c :: nat) \<le> 57)"

definition digitValue :: "char \<Rightarrow> int" where
  "digitValue c = int (of_char c) - 48"

definition isHexDigit :: "char \<Rightarrow> bool" where
  "isHexDigit c = (isDigit c \<or> (65 \<le> (of_char c :: nat) \<and> (of_char c :: nat) \<le> 70)
                           \<or> (97 \<le> (of_char c :: nat) \<and> (of_char c :: nat) \<le> 102))"

definition hexValue :: "char \<Rightarrow> int" where
  "hexValue c = (if isDigit c then digitValue c
                 else if (of_char c :: nat) \<le> 70 then int (of_char c) - 55
                 else int (of_char c) - 87)"

definition digitsValue :: "int \<Rightarrow> (char \<Rightarrow> int) \<Rightarrow> string \<Rightarrow> int" where
  "digitsValue radix val ds = foldl (\<lambda>acc c. radix * acc + val c) 0 ds"

text \<open>
  \<^verbatim>\<open>parseInt(string)\<close> with no radix: skip leading white space, read a sign, read a
  \<^verbatim>\<open>0x\<close> prefix, take the longest run of digits; \<^verbatim>\<open>NaN\<close> when that run is empty.
\<close>

definition parseInt :: "string \<Rightarrow> number" where
  "parseInt inputString =
     (let S = dropWhile isWhiteSpace inputString;
          sign = (if S \<noteq> [] \<and> hd S = CHR ''-'' then - 1 else 1 :: int);
          S1 = (if S \<noteq> [] \<and> (hd S = CHR ''+'' \<or> hd S = CHR ''-'') then tl S else S);
          hex = (2 \<le> length S1 \<and> (take 2 S1 = ''0x'' \<or> take 2 S1 = ''0X''));
          S2 = (if hex then drop 2 S1 else S1);
          Z = (if hex then takeWhile isHexDigit S2 else takeWhile isDigit S2)
      in if Z = [] then None
         else Some (sign * (if hex then digitsValue 16 hexValue Z else digitsValue 10 digitValue Z)))"

definition Number_isInteger :: "number \<Rightarrow> bool" where
  "Number_isInteger v = (v \<noteq> None)"

text \<open>The comparisons \<^verbatim>\<open>v < k\<close> and \<^verbatim>\<open>v > k\<close>: both are false on \<^verbatim>\<open>NaN\<close>.\<close>

definition num_less :: "number \<Rightarrow> int \<Rightarrow> bool" where
  "num_less v k = (case v of None \<Rightarrow> False | Some n \<Rightarrow> n < k)"

definition num_greater :: "number \<Rightarrow> int \<Rightarrow> bool" where
  "num_greater v k = (case v of None \<Rightarrow> False | Some n \<Rightarrow> n > k)"

definition digitChar :: "nat \<Rightarrow> char" where
  "digitChar d = char_of (48 + d)"

fun String_nat :: "nat \<Rightarrow> string" where
  "String_nat n = (if n < 10 then [digitChar n] else String_nat (n div 10) @ [digitChar (n mod 10)])"

declare String_nat.simps [simp del]

text \<open>\<^verbatim>\<open>String(v)\<close> on a number.\<close>

definition String_num :: "number \<Rightarrow> string" where
  "String_num v = (case v of None \<Rightarrow> ''NaN''
                   | Some n \<Rightarrow> if n < 0 then CHR ''-'' # String_nat (nat (- n)) else String_nat (nat n))"

text \<open>
  \<^verbatim>\<open>Number(string)\<close> on the strings the script gives it, which are results of
  \<^verbatim>\<open>String\<close> on an integer: white space is trimmed at both ends, the empty string is 0,
  a signed run of decimal digits is its value, and anything else is read as \<^verbatim>\<open>NaN\<close>
  (literals with a fraction, an exponent or a radix prefix are outside the model).
\<close>

definition trim :: "string \<Rightarrow> string" where
  "trim s = rev (dropWhile isWhiteSpace (rev (dropWhile isWhiteSpace s)))"

definition Number_str :: "string \<Rightarrow> number" where
  "Number_str s =
     (let t = trim s;
          neg = (t \<noteq> [] \<and> hd t = CHR ''-'');
          ds = (if t \<noteq> [] \<and> (hd t = CHR ''+'' \<or> hd t = CHR ''-'') then tl t else t)
      in if t = [] then Some 0
         else if ds \<noteq> [] \<and> list_all isDigit ds
         then Some ((if neg then - 1 else 1) * digitsValue 10 digitValue ds)
         else None)"

subsection \<open>The shared board buffer\<close>

text \<open>
  \<^verbatim>\<open>cells\<close> is a \<^verbatim>\<open>Uint8Array\<close> of length 81 over the engine's memory. A read outside
  the array is \<^verbatim>\<open>undefined\<close> (\<open>None\<close> here), a write outside it or at \<^verbatim>\<open>NaN\<close> is
  dropped, and a written number is reduced modulo 256 (\<^verbatim>\<open>NaN\<close> to 0).
\<close>

type_synonym cells = "8 word list"

definition cells_get :: "cells \<Rightarrow> number \<Rightarrow> 8 word option" where
  "cells_get cs idx =
     (case idx of None \<Rightarrow> None
      | Some k \<Rightarrow> if 0 \<le> k \<and> k < int (length cs) then Some (cs ! nat k) else None)"

definition ToUint8 :: "number \<Rightarrow> 8 word" where
  "ToUint8 v = (case v of None \<Rightarrow> 0 | Some n \<Rightarrow> word_of_int n)"

definition cells_set :: "cells \<Rightarrow> number \<Rightarrow> number \<Rightarrow> cells" where
  "cells_set cs idx v =
     (case idx of None \<Rightarrow> cs
      | Some k \<Rightarrow> if 0 \<le> k \<and> k < int (length cs) then cs[nat k := ToUint8 v] else cs)"

subsection \<open>Page state\<close>

text \<open>
  An input element has the properties the script reads or writes: \<^verbatim>\<open>value\<close>
  (\<open>value_text\<close> here), \<^verbatim>\<open>selectionStart\<close>, \<^verbatim>\<open>classList\<close>, \<^verbatim>\<open>readOnly\<close>, \<^verbatim>\<open>type\<close>,
  \<^verbatim>\<open>inputMode\<close>, \<^verbatim>\<open>dataset.index\<close> and \<^verbatim>\<open>oninput\<close>. The page holds the module's
  globals \<^verbatim>\<open>cells\<close> and \<^verbatim>\<open>clueIndices\<close>, the elements of the grid in document order, the
  text and the classes of the notification element, and the timers that
  \<^verbatim>\<open>setTimeout\<close> has scheduled, each with its delay in milliseconds.
\<close>

datatype handler = UpdateCell

record input =
  value_text :: string
  selectionStart :: nat
  classList :: "string list"
  readOnly :: bool
  type_attr :: string
  inputMode :: string
  dataset_index :: string
  oninput :: "handler option"

datatype timer_action = ClearNotificationClass

record page =
  cells :: cells
  clueIndices :: "nat set"
  grid :: "input list"
  notification_text :: string
  notification_classes :: "string list"
  timers :: "(nat \<times> timer_action) list"

text \<open>\<^verbatim>\<open>classList.add\<close> and \<^verbatim>\<open>classList.remove\<close> on the ordered set of class tokens.\<close>

definition classList_add :: "string \<Rightarrow> string list \<Rightarrow> string list" where
  "classList_add c cl = (if c \<in> set cl then cl else cl @ [c])"

definition classList_remove :: "string \<Rightarrow> string list \<Rightarrow> string list" where
  "classList_remove c cl = filter (\<lambda>x. x \<noteq> c) cl"

subsection \<open>updateCell\<close>

text \<open>
  The handler works on the event's target and on \<^verbatim>\<open>cells\<close>. The target's raw text and
  cursor are what the browser left there when it raised the event.
\<close>

definition newValue_of :: "input \<Rightarrow> number" where
  "newValue_of inp = parseInt (substr (value_text inp) (int (selectionStart inp) - 1) 1)"

definition rejected :: "input \<Rightarrow> bool" where
  "rejected inp =
     (\<not> Number_isInteger (newValue_of inp) \<or> num_less (newValue_of inp) 1 \<or> num_greater (newValue_of inp) 9)"

definition updateCell_target :: "input \<Rightarrow> cells \<Rightarrow> input \<times> cells" where
  "updateCell_target inp cs =
     (let newValue = newValue_of inp
      in if \<not> Number_isInteger newValue \<or> num_less newValue 1 \<or> num_greater newValue 9
         then
           (let oldValue =
                  (if length (value_text inp) = 1 then ''''
                   else substr (value_text inp)
                          (int (length (value_text inp)) - int (selectionStart inp)) 1)
            in (inp\<lparr>value_text := oldValue\<rparr>, cs))
         else
           (let inp' = inp\<lparr>value_text := String_num newValue\<rparr>
            in (inp', cells_set cs (Number_str (dataset_index inp')) (Number_str (value_text inp')))))"

text \<open>The handler on the page: the target is the element at position \<open>j\<close> of the grid.\<close>

definition updateCell :: "nat \<Rightarrow> page \<Rightarrow> page" where
  "updateCell j s =
     (if j < length (grid s)
      then (let (inp', cs') = updateCell_target (grid s ! j) (cells s)
            in s\<lparr>grid := (grid s)[j := inp'], cells := cs'\<rparr>)
      else s)"

subsection \<open>refreshGrid\<close>

text \<open>One turn of the loop body on the element \<open>inp\<close> found at position \<open>i\<close> of the selection.\<close>

definition refresh_input :: "cells \<Rightarrow> nat set \<Rightarrow> nat \<Rightarrow> input \<Rightarrow> input" where
  "refresh_input cs clues i inp =
     (let index = Number_str (dataset_index inp);
          inp1 = inp\<lparr>value_text :=
                   (case cells_get cs index of
                      None \<Rightarrow> ''''
                    | Some b \<Rightarrow> if b \<noteq> 0 then String_num (Some (uint b)) else '''')\<rparr>
      in if i \<in> clues
         then inp1\<lparr>classList := classList_add ''clue'' (classList inp1), readOnly := True\<rparr>
         else inp1\<lparr>classList := classList_remove ''clue'' (classList inp1), readOnly := False\<rparr>)"

text \<open>
  \<^verbatim>\<open>document.querySelectorAll(".cell")\<close> selects, in document order, the elements that
  carry the class \<^verbatim>\<open>cell\<close>; the loop counter \<open>i\<close> counts the selected elements only.
\<close>

fun refresh_loop :: "cells \<Rightarrow> nat set \<Rightarrow> nat \<Rightarrow> input list \<Rightarrow> input list" where
  "refresh_loop cs clues i [] = []"
| "refresh_loop cs clues i (inp # rest) =
     (if ''cell'' \<in> set (classList inp)
      then refresh_input cs clues i inp # refresh_loop cs clues (Suc i) rest
      else inp # refresh_loop cs clues i rest)"

definition refreshGrid :: "page \<Rightarrow> page" where
  "refreshGrid s = s\<lparr>grid := refresh_loop (cells s) (clueIndices s) 0 (grid s)\<rparr>"

subsection \<open>initializeGrid and initializeClues\<close>

definition createCell :: "nat \<Rightarrow> input" where
  "createCell i =
     \<lparr>value_text = '''', selectionStart = 0, classList = classList_add ''cell'' [],
      readOnly = False, type_attr = ''text'', inputMode = ''numeric'',
      dataset_index = String_num (Some (int i)), oninput = Some UpdateCell\<rparr>"

function initializeGrid_loop :: "nat \<Rightarrow> input list \<Rightarrow> input list" where
  "initializeGrid_loop i g = (if i < 81 then initializeGrid_loop (Suc i) (g @ [createCell i]) else g)"
  by pat_completeness auto
termination
  by (relation "measure (\<lambda>(i, g). 81 - i)") auto

declare initializeGrid_loop.simps [simp del]

definition initializeGrid :: "page \<Rightarrow> page" where
  "initializeGrid s = refreshGrid (s\<lparr>grid := initializeGrid_loop 0 (grid s)\<rparr>)"

definition initializeClues :: "page \<Rightarrow> page" where
  "initializeClues s =
     s\<lparr>clueIndices :=
         set (map the (filter (\<lambda>x. x \<noteq> None)
                (map (\<lambda>(x, index). if x = 0 then None else Some index)
                   (zip (cells s) [0 ..< length (cells s)]))))\<rparr>"

subsection \<open>The engine and the three actions\<close>

text \<open>
  Modelled from the spec: the puzzle engine (package \<^verbatim>\<open>wasm-sudoku\<close>) is outside the
  script. By the spec's engine interface \<^verbatim>\<open>generate\<close> and \<^verbatim>\<open>solve\<close> rewrite the buffer
  in place and \<^verbatim>\<open>verify\<close> only reads it and answers with a boolean. Nothing else is
  known of them, so they are parameters.
\<close>

record engine =
  generate :: "cells \<Rightarrow> cells"
  verify :: "cells \<Rightarrow> bool"
  solve :: "cells \<Rightarrow> cells"

definition generatePuzzle :: "engine \<Rightarrow> page \<Rightarrow> page" where
  "generatePuzzle puzzle s =
     refreshGrid (initializeClues (s\<lparr>cells := generate puzzle (cells s)\<rparr>))"

definition verifyPuzzle :: "engine \<Rightarrow> page \<Rightarrow> page" where
  "verifyPuzzle puzzle s =
     (let result = verify puzzle (cells s);
          (message, type) =
             (if result
              then (if list_all (\<lambda>x. x \<noteq> 0) (cells s)
                    then ''Congratulations! You solved it.'' else ''Looks good so far!'',
                    ''success'')
              else (''Oops! There is a mistake somewhere.'', ''error''))
      in s\<lparr>notification_text := message,
            notification_classes := classList_add type (classList_add ''visible'' []),
            timers := timers s @ [(2500, ClearNotificationClass)]\<rparr>)"

definition fire_timer :: "timer_action \<Rightarrow> page \<Rightarrow> page" where
  "fire_timer a s = (case a of ClearNotificationClass \<Rightarrow> s\<lparr>notification_classes := []\<rparr>)"

definition solvePuzzle :: "engine \<Rightarrow> page \<Rightarrow> page" where
  "solvePuzzle puzzle s = refreshGrid (s\<lparr>cells := solve puzzle (cells s)\<rparr>)"

subsection \<open>The text input mechanism\<close>

text \<open>
  What the browser does to a text input before it raises the input event: the selected
  range from \<open>a\<close> up to \<open>b\<close> of the text is replaced by the typed or pasted text \<open>t\<close>, and
  the cursor is put behind it. Typing one code unit at a collapsed cursor is
  \<open>a = b\<close> with \<open>t\<close> of length 1, typing it over the selected text is \<open>a < b\<close>;
  backspace and delete have \<open>t\<close> empty; a paste, or a typed character of two code
  units, has \<open>t\<close> of length 2 or more.
\<close>

definition browser_edit :: "nat \<Rightarrow> nat \<Rightarrow> string \<Rightarrow> input \<Rightarrow> input" where
  "browser_edit a b t inp =
     inp\<lparr>value_text := take a (value_text inp) @ t @ drop b (value_text inp),
         selectionStart := a + length t\<rparr>"

text \<open>
  An edit of the element at position \<open>j\<close> of the grid, followed by the element's input
  handler. A read-only element takes no edit and raises no event.
\<close>

definition input_event :: "nat \<Rightarrow> nat \<Rightarrow> nat \<Rightarrow> string \<Rightarrow> page \<Rightarrow> page" where
  "input_event j a b t s =
     (if j < length (grid s) \<and> \<not> readOnly (grid s ! j)
      then (let s1 = s\<lparr>grid := (grid s)[j := browser_edit a b t (grid s ! j)]\<rparr>
            in case oninput (grid s ! j) of None \<Rightarrow> s1 | Some UpdateCell \<Rightarrow> updateCell j s1)
      else s)"

text \<open>The displayed texts the cells are meant to have: empty, or one of the digits 1 to 9.\<close>

definition single_digit_text :: "string \<Rightarrow> bool" where
  "single_digit_text v = (v = [] \<or> (\<exists>d \<in> {1 .. 9}. v = [digitChar d]))"

text \<open>The grid as \<^verbatim>\<open>initializeGrid\<close> builds it, over a board of 81 cells.\<close>

definition grid_ok :: "page \<Rightarrow> bool" where
  "grid_ok s =
     (length (cells s) = 81 \<and> length (grid s) = 81 \<and>
      (\<forall>i \<in> {0 ..< 81}. ''cell'' \<in> set (classList (grid s ! i)) \<and>
                 dataset_index (grid s ! i) = String_num (Some (int i))))"

subsection \<open>Start of the page and a concrete run\<close>

text \<open>
  The module body: the buffer of a new engine (all zero), then \<^verbatim>\<open>initializeClues()\<close>
  and \<^verbatim>\<open>initializeGrid()\<close> on an empty grid element.
\<close>

definition empty_page :: page where
  "empty_page = \<lparr>cells = replicate 81 0, clueIndices = {}, grid = [],
                  notification_text = '''', notification_classes = [], timers = []\<rparr>"

definition start_page :: page where
  "start_page = initializeGrid (initializeClues empty_page)"

text \<open>
  An engine for concrete runs: it generates the board 5, 0, ..., 0, accepts every
  board, and solves by putting 1 into every empty cell.
\<close>

definition example_engine :: engine where
  "example_engine =
     \<lparr>generate = (\<lambda>cs. 5 # replicate 80 0),
      verify = (\<lambda>cs. True),
      solve = (\<lambda>cs. map (\<lambda>x. if x = 0 then 1 else x) cs)\<rparr>"

definition example_page :: page where
  "example_page = generatePuzzle example_engine start_page"

text \<open>An input showing 7, as the cell at index 1 is after the user typed 7 into it.\<close>

definition showing7 :: input where
  "showing7 = (createCell 1)\<lparr>value_text := ''7'', selectionStart := 1\<rparr>"

text \<open>
  A page whose second input holds the raw text \<open>raw\<close> with the cursor at \<open>sel\<close>,
  as the browser leaves it when it raises the input event.
\<close>

definition typed_page :: "string \<Rightarrow> nat \<Rightarrow> page" where
  "typed_page raw sel =
     empty_page\<lparr>grid := [createCell 0, (createCell 1)\<lparr>value_text := raw, selectionStart := sel\<rparr>]\<rparr>"

text \<open>
  The example page after the user typed 7 into the cell at index 1 and then pressed
  backspace there: the board holds 7 at index 1, the browser has emptied the raw text,
  and the input event of the backspace is still to be handled.
\<close>

definition backspaced_page :: page where
  "backspaced_page =
     example_page\<lparr>cells := (cells example_page)[1 := 7],
                  grid := (grid example_page)[1 := (grid example_page ! 1)\<lparr>value_text := '''', selectionStart := 0\<rparr>]\<rparr>"

section \<open>Facts about the library functions\<close>

lemma substr_one_length: "length (substr s start 1) \<le> 1"
  by (auto simp: substr_def Let_def min_def max_def)

lemma isDigit_not_space: "isDigit c \<Longrightarrow> \<not> isWhiteSpace c"
  by (auto simp: isDigit_def isWhiteSpace_def)

lemma isDigit_not_sign: "isDigit c \<Longrightarrow> c \<noteq> CHR ''+'' \<and> c \<noteq> CHR ''-''"
  by (auto simp: isDigit_def)

lemma parseInt_Nil: "parseInt [] = None"
  by (simp add: parseInt_def)

lemma parseInt_single:
  "parseInt [c] = (if isDigit c then Some (digitValue c) else None)"
  by (auto simp: parseInt_def Let_def digitsValue_def isDigit_not_space dest: isDigit_not_sign)

lemma parseInt_short:
  "length z \<le> 1 \<Longrightarrow> parseInt z = Some n \<Longrightarrow> z = [digitChar (nat n)] \<and> 0 \<le> n \<and> n \<le> 9"
proof -
  assume len: "length z \<le> 1" and p: "parseInt z = Some n"
  from p have "z \<noteq> []" by (auto simp: parseInt_Nil)
  with len obtain c where z: "z = [c]" by (cases z) auto
  with p have d: "isDigit c" and n: "n = digitValue c"
    by (auto simp: parseInt_single split: if_splits)
  from d n have "0 \<le> n" "n \<le> 9" by (auto simp: isDigit_def digitValue_def)
  moreover from d n have "digitChar (nat n) = c"
    by (simp add: digitChar_def isDigit_def digitValue_def nat_diff_distrib')
  ultimately show ?thesis using z by simp
qed

lemma newValue_of_Some:
  "newValue_of inp = Some n \<Longrightarrow> 0 \<le> n \<and> n \<le> 9 \<and>
     substr (value_text inp) (int (selectionStart inp) - 1) 1 = [digitChar (nat n)]"
  unfolding newValue_of_def using parseInt_short [OF substr_one_length] by blast

lemma rejected_iff:
  "rejected inp \<longleftrightarrow> \<not> (\<exists>n. newValue_of inp = Some n \<and> 1 \<le> n \<and> n \<le> 9)"
  by (cases "newValue_of inp") (auto simp: rejected_def Number_isInteger_def num_less_def num_greater_def)

lemma String_nat_digit: "d < 10 \<Longrightarrow> String_nat d = [digitChar d]"
  by (simp add: String_nat.simps)

lemma String_num_digit: "0 \<le> n \<Longrightarrow> n \<le> 9 \<Longrightarrow> String_num (Some n) = [digitChar (nat n)]"
  by (simp add: String_num_def String_nat_digit)

lemma isDigit_digitChar: "d < 10 \<Longrightarrow> isDigit (digitChar d)"
  by (simp add: isDigit_def digitChar_def)

lemma digitValue_digitChar: "d < 10 \<Longrightarrow> digitValue (digitChar d) = int d"
  by (simp add: digitValue_def digitChar_def)

lemma String_nat_digits: "list_all isDigit (String_nat n) \<and> String_nat n \<noteq> []"
  by (induction n rule: String_nat.induct) (subst String_nat.simps, simp add: isDigit_digitChar)+

lemma digitsValue_snoc: "digitsValue r v (ds @ [c]) = r * digitsValue r v ds + v c"
  by (simp add: digitsValue_def)

lemma digitsValue_String_nat: "digitsValue 10 digitValue (String_nat n) = int n"
proof (induction n rule: String_nat.induct)
  case (1 n)
  show ?case
  proof (cases "n < 10")
    case True
    then show ?thesis by (simp add: String_nat_digit digitsValue_def digitValue_digitChar)
  next
    case False
    have "String_nat n = String_nat (n div 10) @ [digitChar (n mod 10)]"
      using False by (subst String_nat.simps) simp
    moreover have "10 * int (n div 10) + int (n mod 10) = int n"
      by presburger
    ultimately show ?thesis
      using 1 False by (simp add: digitsValue_snoc digitValue_digitChar)
  qed
qed

lemma trim_digits:
  assumes "list_all isDigit ds"
  shows "trim ds = ds"
proof (cases ds rule: rev_cases)
  case Nil
  then show ?thesis by (simp add: trim_def)
next
  case (snoc xs x)
  with assms have "\<not> isWhiteSpace x" by (simp add: isDigit_not_space)
  then have rv: "dropWhile isWhiteSpace (rev ds) = rev ds" using snoc by simp
  from assms have "dropWhile isWhiteSpace ds = ds"
    by (cases ds) (auto simp: isDigit_not_space)
  then show ?thesis using snoc \<open>\<not> isWhiteSpace x\<close> by (simp add: trim_def)
qed

lemma Number_str_String_nat: "Number_str (String_nat n) = Some (int n)"
proof -
  have d: "list_all isDigit (String_nat n)" and ne: "String_nat n \<noteq> []"
    using String_nat_digits by auto
  from d ne have "isDigit (hd (String_nat n))" by (cases "String_nat n") auto
  then have "hd (String_nat n) \<noteq> CHR ''+''" "hd (String_nat n) \<noteq> CHR ''-''"
    using isDigit_not_sign by auto
  then show ?thesis
    using d ne by (simp add: Number_str_def trim_digits digitsValue_String_nat)
qed

lemma Number_str_index: "Number_str (String_num (Some (int k))) = Some (int k)"
  by (simp add: String_num_def Number_str_String_nat)

section \<open>Facts about the handlers\<close>

lemma digitChar_values:
  "digitChar 0 = CHR ''0''" "digitChar 1 = CHR ''1''" "digitChar 2 = CHR ''2''"
  "digitChar 3 = CHR ''3''" "digitChar 4 = CHR ''4''" "digitChar 5 = CHR ''5''"
  "digitChar 6 = CHR ''6''" "digitChar 7 = CHR ''7''" "digitChar 8 = CHR ''8''"
  "digitChar 9 = CHR ''9''"
  by code_simp+

lemma Number_str_digit: "0 \<le> n \<Longrightarrow> n \<le> 9 \<Longrightarrow> Number_str [digitChar (nat n)] = Some n"
  using Number_str_String_nat [of "nat n"] by (simp add: String_nat_digit)

lemma updateCell_target_rejected:
  "rejected inp \<Longrightarrow>
   updateCell_target inp cs =
     (inp\<lparr>value_text :=
            (if length (value_text inp) = 1 then ''''
             else substr (value_text inp) (int (length (value_text inp)) - int (selectionStart inp)) 1)\<rparr>,
      cs)"
  by (simp add: updateCell_target_def rejected_def Let_def)

lemma updateCell_target_accepted:
  assumes "newValue_of inp = Some n" and "1 \<le> n" and "n \<le> 9"
  shows "updateCell_target inp cs =
           (inp\<lparr>value_text := [digitChar (nat n)]\<rparr>,
            cells_set cs (Number_str (dataset_index inp)) (Some n))"
  using assms
  by (simp add: updateCell_target_def Let_def Number_isInteger_def num_less_def num_greater_def
      String_num_digit Number_str_digit)

lemma cells_set_index:
  "k < length cs \<Longrightarrow> cells_set cs (Some (int k)) v = cs[k := ToUint8 v]"
  by (simp add: cells_set_def)

lemma uint_ToUint8_digit: "0 \<le> n \<Longrightarrow> n \<le> 9 \<Longrightarrow> uint (ToUint8 (Some n)) = n"
  by (simp add: ToUint8_def uint_word_of_int)

lemma updateCell_grid_length: "length (grid (updateCell j s)) = length (grid s)"
  by (simp add: updateCell_def split: prod.splits)

lemma updateCell_cells_length: "length (cells (updateCell j s)) = length (cells s)"
  by (auto simp: updateCell_def updateCell_target_def cells_set_def Let_def split: prod.splits option.splits)

text \<open>
  C1. Write-through of one input event on the cell bound to board index \<open>k\<close>: an
  accepted edit (the extracted character parses as some \<open>n\<close> from 1 to 9) leaves
  \<open>n\<close> at \<open>Board[k]\<close> and the one digit \<open>n\<close> as the displayed text; a rejected edit
  leaves the whole board as it was.
\<close>

theorem updateCell_write_through:
  assumes "j < length (grid s)"
    and "dataset_index (grid s ! j) = String_num (Some (int k))"
    and "k < length (cells s)"
  shows "(\<not> rejected (grid s ! j) \<longrightarrow>
            (\<exists>n \<in> {1 .. 9}. newValue_of (grid s ! j) = Some n \<and>
               uint (cells (updateCell j s) ! k) = n \<and>
               value_text (grid (updateCell j s) ! j) = [digitChar (nat n)]))
       \<and> (rejected (grid s ! j) \<longrightarrow> cells (updateCell j s) = cells s)"
proof (intro conjI impI)
  assume "\<not> rejected (grid s ! j)"
  then obtain n where n: "newValue_of (grid s ! j) = Some n" "1 \<le> n" "n \<le> 9"
    by (auto simp: rejected_iff)
  have "updateCell j s =
          s\<lparr>grid := (grid s)[j := (grid s ! j)\<lparr>value_text := [digitChar (nat n)]\<rparr>],
            cells := (cells s)[k := ToUint8 (Some n)]\<rparr>"
    using assms n
    by (simp add: updateCell_def updateCell_target_accepted Number_str_index cells_set_index)
  then have "uint (cells (updateCell j s) ! k) = n"
      and "value_text (grid (updateCell j s) ! j) = [digitChar (nat n)]"
    using assms n by (simp_all add: uint_ToUint8_digit)
  with n show "\<exists>n \<in> {1 .. 9}. newValue_of (grid s ! j) = Some n \<and>
       uint (cells (updateCell j s) ! k) = n \<and>
       value_text (grid (updateCell j s) ! j) = [digitChar (nat n)]"
    by auto
next
  assume "rejected (grid s ! j)"
  then show "cells (updateCell j s) = cells s"
    using assms by (simp add: updateCell_def updateCell_target_rejected)
qed

theorem updateCell_write_through_witness:
  "uint (cells (updateCell 1 (typed_page ''7'' 1)) ! 1) = 7
   \<and> value_text (grid (updateCell 1 (typed_page ''7'' 1)) ! 1) = ''7''
   \<and> rejected (grid (typed_page ''7x'' 2) ! 1)
   \<and> cells (updateCell 1 (typed_page ''7x'' 2)) = cells (typed_page ''7x'' 2)"
proof -
  have a: "\<not> rejected (grid (typed_page ''7'' 1) ! 1)"
    by (simp add: typed_page_def rejected_def newValue_of_def substr_def parseInt_single
        isDigit_def digitValue_def Number_isInteger_def num_less_def num_greater_def)
  have b: "rejected (grid (typed_page ''7x'' 2) ! 1)"
    by (simp add: typed_page_def rejected_def newValue_of_def substr_def parseInt_single
        isDigit_def digitValue_def Number_isInteger_def num_less_def num_greater_def)
  have n7: "newValue_of (grid (typed_page ''7'' 1) ! 1) = Some 7"
    by (simp add: typed_page_def newValue_of_def substr_def parseInt_single isDigit_def digitValue_def)
  have h: "1 < length (grid (typed_page raw sel))"
    "dataset_index (grid (typed_page raw sel) ! 1) = String_num (Some (int 1))"
    "1 < length (cells (typed_page raw sel))" for raw sel
    by (simp_all add: typed_page_def createCell_def empty_page_def)
  from updateCell_write_through [OF h, of "''7''" 1] a obtain n
    where "newValue_of (grid (typed_page ''7'' 1) ! 1) = Some n"
      and "uint (cells (updateCell 1 (typed_page ''7'' 1)) ! 1) = n"
      and "value_text (grid (updateCell 1 (typed_page ''7'' 1)) ! 1) = [digitChar (nat n)]"
    by blast
  with n7 have "uint (cells (updateCell 1 (typed_page ''7'' 1)) ! 1) = 7"
    and "value_text (grid (updateCell 1 (typed_page ''7'' 1)) ! 1) = [digitChar 7]"
    by simp_all
  moreover from updateCell_write_through [OF h, of "''7x''" 2] b
  have "cells (updateCell 1 (typed_page ''7x'' 2)) = cells (typed_page ''7x'' 2)"
    by blast
  ultimately show ?thesis
    using b by (simp add: digitChar_values)
qed

section \<open>Facts about the refresh\<close>

lemma cell_ne_clue: "''cell'' \<noteq> ''clue''"
  by simp

lemma refresh_input_cell:
  "''cell'' \<in> set (classList (refresh_input cs clues i inp)) \<longleftrightarrow> ''cell'' \<in> set (classList inp)"
  by (simp add: refresh_input_def Let_def classList_add_def classList_remove_def)

lemma refresh_input_dataset_index:
  "dataset_index (refresh_input cs clues i inp) = dataset_index inp"
  by (simp add: refresh_input_def Let_def)

lemma classList_add_idem: "classList_add c (classList_add c cl) = classList_add c cl"
  by (simp add: classList_add_def)

lemma classList_remove_idem: "classList_remove c (classList_remove c cl) = classList_remove c cl"
  by (simp add: classList_remove_def)

lemma refresh_input_idem:
  "refresh_input cs clues i (refresh_input cs clues i inp) = refresh_input cs clues i inp"
  by (simp add: refresh_input_def Let_def classList_add_idem classList_remove_idem)

lemma refresh_loop_idem:
  "refresh_loop cs clues i (refresh_loop cs clues i ws) = refresh_loop cs clues i ws"
  by (induction ws arbitrary: i) (simp_all add: refresh_input_cell refresh_input_idem)

lemma refresh_loop_length: "length (refresh_loop cs clues i ws) = length ws"
  by (induction ws arbitrary: i) simp_all

lemma refresh_loop_nth:
  "\<forall>w \<in> set ws. ''cell'' \<in> set (classList w) \<Longrightarrow> k < length ws \<Longrightarrow>
   refresh_loop cs clues i ws ! k = refresh_input cs clues (i + k) (ws ! k)"
proof (induction ws arbitrary: i k)
  case Nil
  then show ?case by simp
next
  case (Cons w ws)
  then show ?case by (cases k) simp_all
qed

text \<open>
  C9. The full grid refresh is idempotent: a second refresh with the board and the
  clue set untouched leaves the page, and so every text, read-only flag and clue mark,
  as the first one left it.
\<close>

theorem refreshGrid_idempotent: "refreshGrid (refreshGrid s) = refreshGrid s"
  by (simp add: refreshGrid_def refresh_loop_idem)

lemma refreshGrid_frame:
  "cells (refreshGrid s) = cells s" "clueIndices (refreshGrid s) = clueIndices s"
  "notification_text (refreshGrid s) = notification_text s"
  "notification_classes (refreshGrid s) = notification_classes s"
  "timers (refreshGrid s) = timers s"
  by (simp_all add: refreshGrid_def)

lemma grid_ok_nth:
  "grid_ok s \<Longrightarrow> i < 81 \<Longrightarrow>
   ''cell'' \<in> set (classList (grid s ! i)) \<and> dataset_index (grid s ! i) = String_num (Some (int i))"
  by (simp add: grid_ok_def)

lemma grid_ok_lengths: "grid_ok s \<Longrightarrow> length (cells s) = 81 \<and> length (grid s) = 81"
  by (simp add: grid_ok_def)

lemma grid_ok_all_cells: "grid_ok s \<Longrightarrow> \<forall>w \<in> set (grid s). ''cell'' \<in> set (classList w)"
  by (auto simp: grid_ok_def in_set_conv_nth)

lemma refreshGrid_nth:
  assumes "grid_ok s" and "i < 81"
  shows "grid (refreshGrid s) ! i = refresh_input (cells s) (clueIndices s) i (grid s ! i)"
  using refresh_loop_nth [OF grid_ok_all_cells [OF assms(1)], of i "cells s" "clueIndices s" 0]
    assms grid_ok_lengths [OF assms(1)]
  by (simp add: refreshGrid_def)

lemma refresh_input_value:
  assumes "dataset_index inp = String_num (Some (int i))" and "i < length cs"
  shows "value_text (refresh_input cs clues k inp) =
           (if cs ! i = 0 then '''' else String_num (Some (uint (cs ! i))))"
  using assms by (simp add: refresh_input_def Let_def Number_str_index cells_get_def)

lemma refresh_input_readOnly: "readOnly (refresh_input cs clues k inp) = (k \<in> clues)"
  by (simp add: refresh_input_def Let_def)

lemma refresh_input_clue:
  "(''clue'' \<in> set (classList (refresh_input cs clues k inp))) = (k \<in> clues)"
proof (cases "k \<in> clues")
  case True
  then have "classList (refresh_input cs clues k inp) = classList_add ''clue'' (classList inp)"
    by (simp add: refresh_input_def Let_def)
  then show ?thesis using True by (simp add: classList_add_def)
next
  case False
  then have "classList (refresh_input cs clues k inp) = classList_remove ''clue'' (classList inp)"
    by (simp add: refresh_input_def Let_def)
  then show ?thesis using False by (simp add: classList_remove_def)
qed

lemma String_num_cell:
  fixes b :: "8 word"
  assumes "b \<le> 9"
  shows "String_num (Some (uint b)) = [digitChar (unat b)]"
proof -
  from assms have "uint b \<le> 9" by (simp add: word_le_def)
  moreover have "0 \<le> uint b" by simp
  moreover have "nat (uint b) = unat b" by simp
  ultimately show ?thesis using String_num_digit [of "uint b"] by simp
qed

lemma refreshGrid_grid_length: "length (grid (refreshGrid s)) = length (grid s)"
  by (simp add: refreshGrid_def refresh_loop_length)

lemma refreshGrid_grid_ok:
  assumes "grid_ok s"
  shows "grid_ok (refreshGrid s)"
proof -
  have "''cell'' \<in> set (classList (grid (refreshGrid s) ! i)) \<and>
        dataset_index (grid (refreshGrid s) ! i) = String_num (Some (int i))" if "i < 81" for i
    using grid_ok_nth [OF assms that]
    by (simp add: refreshGrid_nth [OF assms that] refresh_input_cell refresh_input_dataset_index)
  then show ?thesis
    using grid_ok_lengths [OF assms]
    by (simp add: grid_ok_def refreshGrid_frame refreshGrid_grid_length)
qed

section \<open>Facts about the start of the page\<close>

lemma initializeGrid_loop_eq:
  "i \<le> 81 \<Longrightarrow> initializeGrid_loop i g = g @ map createCell [i ..< 81]"
proof (induction i g rule: initializeGrid_loop.induct)
  case (1 i g)
  show ?case
  proof (cases "i < 81")
    case True
    then have "initializeGrid_loop i g = initializeGrid_loop (Suc i) (g @ [createCell i])"
      by (subst initializeGrid_loop.simps) simp
    also have "\<dots> = (g @ [createCell i]) @ map createCell [Suc i ..< 81]"
      using 1 True by simp
    also have "\<dots> = g @ map createCell [i ..< 81]"
      using True by (simp add: upt_conv_Cons)
    finally show ?thesis .
  next
    case False
    with 1 show ?thesis by (subst initializeGrid_loop.simps) simp
  qed
qed

lemma createCell_fields:
  "''cell'' \<in> set (classList (createCell i))"
  "dataset_index (createCell i) = String_num (Some (int i))"
  "oninput (createCell i) = Some UpdateCell"
  "value_text (createCell i) = []" "\<not> readOnly (createCell i)"
  by (simp_all add: createCell_def classList_add_def)

lemma initializeGrid_grid_ok:
  assumes "length (cells s) = 81" and "grid s = []"
  shows "grid_ok (initializeGrid s)"
proof -
  have "grid_ok (s\<lparr>grid := initializeGrid_loop 0 (grid s)\<rparr>)"
    using assms by (simp add: grid_ok_def initializeGrid_loop_eq createCell_fields)
  then show ?thesis
    unfolding initializeGrid_def by (rule refreshGrid_grid_ok)
qed

lemma zip_with_indices: "zip cs [0 ..< length cs] = map (\<lambda>i. (cs ! i, i)) [0 ..< length cs]"
  by (rule nth_equalityI) simp_all

lemma initializeClues_set:
  "clueIndices (initializeClues s) = {i. i < length (cells s) \<and> cells s ! i \<noteq> 0}"
proof -
  define f where "f = (\<lambda>i. if cells s ! i = 0 then None else Some i)"
  have "clueIndices (initializeClues s) =
          set (map the (filter (\<lambda>x. x \<noteq> None) (map f [0 ..< length (cells s)])))"
    by (simp add: initializeClues_def zip_with_indices f_def comp_def)
  also have "\<dots> = the ` {y \<in> f ` {0 ..< length (cells s)}. y \<noteq> None}"
    by simp
  also have "\<dots> = {i. i < length (cells s) \<and> cells s ! i \<noteq> 0}" (is "?L = ?R")
  proof (intro set_eqI iffI)
    fix i
    assume "i \<in> ?L"
    then obtain k where "k < length (cells s)" "f k \<noteq> None" "i = the (f k)"
      by auto
    then show "i \<in> ?R"
      by (auto simp: f_def split: if_splits)
  next
    fix i
    assume "i \<in> ?R"
    then have i: "i < length (cells s)" "f i = Some i"
      by (auto simp: f_def)
    from i(1) have "f i \<in> f ` {0 ..< length (cells s)}"
      by (intro imageI) simp
    with i(2) have "f i \<in> {y \<in> f ` {0 ..< length (cells s)}. y \<noteq> None}"
      by simp
    then have "the (f i) \<in> ?L"
      by (rule imageI)
    then show "i \<in> ?L"
      using i by simp
  qed
  finally show ?thesis .
qed

lemma initializeClues_frame:
  "cells (initializeClues s) = cells s" "grid (initializeClues s) = grid s"
  by (simp_all add: initializeClues_def)

lemma grid_ok_start_page: "grid_ok start_page"
  unfolding start_page_def
  by (rule initializeGrid_grid_ok) (simp_all add: initializeClues_frame empty_page_def)

lemma grid_ok_cong:
  "grid_ok s \<Longrightarrow> length cs = 81 \<Longrightarrow> grid_ok (s\<lparr>cells := cs, clueIndices := cl\<rparr>)"
  by (simp add: grid_ok_def)

lemma generatePuzzle_cells: "cells (generatePuzzle puzzle s) = generate puzzle (cells s)"
  by (simp add: generatePuzzle_def refreshGrid_frame initializeClues_frame)

lemma cells_example_page: "cells example_page = 5 # replicate 80 0"
  by (simp add: example_page_def generatePuzzle_cells example_engine_def)

lemma clueIndices_example_page: "clueIndices example_page = {0}"
proof -
  have "clueIndices example_page = {i. i < 81 \<and> (5 # replicate 80 0 :: cells) ! i \<noteq> 0}"
    by (simp add: example_page_def generatePuzzle_def refreshGrid_frame initializeClues_set
        example_engine_def)
  also have "\<dots> = {0}"
    by (auto simp: nth_Cons')
  finally show ?thesis .
qed

lemma grid_ok_example_page: "grid_ok example_page"
proof -
  have "grid_ok (start_page\<lparr>cells := generate example_engine (cells start_page)\<rparr>)"
    using grid_ok_start_page by (simp add: grid_ok_def example_engine_def)
  then have "grid_ok (initializeClues (start_page\<lparr>cells := generate example_engine (cells start_page)\<rparr>))"
    by (simp add: grid_ok_def initializeClues_def)
  then show ?thesis
    unfolding example_page_def generatePuzzle_def by (rule refreshGrid_grid_ok)
qed

section \<open>The claims about the refresh and the actions\<close>

text \<open>
  C4. Right after a full grid refresh of the grid that \<^verbatim>\<open>initializeGrid\<close> built, the
  input at every position \<open>i\<close> below 81 shows the empty text when \<open>Board[i]\<close> is 0 and
  \<^verbatim>\<open>String(Board[i])\<close> otherwise, which is the one digit for a board value up to 9;
  its read-only flag and its clue mark are set exactly when \<open>i\<close> is in the clue set.
  The refresh leaves the board and the clue set alone.
\<close>

theorem refreshGrid_relationship:
  assumes "grid_ok s" and "i < 81"
  shows "value_text (grid (refreshGrid s) ! i) =
           (if cells s ! i = 0 then '''' else String_num (Some (uint (cells s ! i))))
       \<and> (cells s ! i \<noteq> 0 \<and> cells s ! i \<le> 9 \<longrightarrow>
            value_text (grid (refreshGrid s) ! i) = [digitChar (unat (cells s ! i))])
       \<and> readOnly (grid (refreshGrid s) ! i) = (i \<in> clueIndices s)
       \<and> (''clue'' \<in> set (classList (grid (refreshGrid s) ! i))) = (i \<in> clueIndices s)
       \<and> cells (refreshGrid s) = cells s \<and> clueIndices (refreshGrid s) = clueIndices s"
proof -
  have len: "i < length (cells s)"
    using assms grid_ok_lengths by simp
  have v: "value_text (grid (refreshGrid s) ! i) =
             (if cells s ! i = 0 then '''' else String_num (Some (uint (cells s ! i))))"
    using grid_ok_nth [OF assms] len
    by (simp add: refreshGrid_nth [OF assms] refresh_input_value)
  moreover have "value_text (grid (refreshGrid s) ! i) = [digitChar (unat (cells s ! i))]"
    if "cells s ! i \<noteq> 0" "cells s ! i \<le> 9"
    using v that by (simp add: String_num_cell)
  moreover have "readOnly (grid (refreshGrid s) ! i) = (i \<in> clueIndices s)"
    by (simp add: refreshGrid_nth [OF assms] refresh_input_readOnly)
  moreover have "(''clue'' \<in> set (classList (grid (refreshGrid s) ! i))) = (i \<in> clueIndices s)"
    by (simp only: refreshGrid_nth [OF assms] refresh_input_clue)
  ultimately show ?thesis
    by (simp add: refreshGrid_frame)
qed

theorem refreshGrid_relationship_witness:
  "value_text (grid (refreshGrid example_page) ! 0) = ''5''
   \<and> readOnly (grid (refreshGrid example_page) ! 0)
   \<and> ''clue'' \<in> set (classList (grid (refreshGrid example_page) ! 0))
   \<and> value_text (grid (refreshGrid example_page) ! 1) = ''''
   \<and> \<not> readOnly (grid (refreshGrid example_page) ! 1)
   \<and> ''clue'' \<notin> set (classList (grid (refreshGrid example_page) ! 1))"
proof -
  have five: "(5 :: 8 word) \<noteq> 0 \<and> (5 :: 8 word) \<le> 9"
    by simp
  have "unat (5 :: 8 word) = 5" and "String_num (Some 5) = ''5''"
    by (simp_all add: String_num_def String_nat_digit digitChar_values)
  then show ?thesis
    using refreshGrid_relationship [OF grid_ok_example_page, of 0]
      refreshGrid_relationship [OF grid_ok_example_page, of 1] five
    by (simp add: cells_example_page clueIndices_example_page digitChar_values)
qed

text \<open>
  C5. The Generate action is the engine's \<^verbatim>\<open>generate()\<close>, then the clue set replaced
  by the positions of the non-zero cells of the board that \<^verbatim>\<open>generate()\<close> left, then the
  full grid refresh, in this order. So after Generate, on the grid that
  \<^verbatim>\<open>initializeGrid\<close> built and with an engine that keeps the 81 cells, every input shows
  the new board (empty for 0) and is read-only and marked as a clue exactly when the new
  board is non-zero at its position.
\<close>

theorem generatePuzzle_order:
  "generatePuzzle puzzle s =
     refreshGrid (s\<lparr>cells := generate puzzle (cells s),
                    clueIndices := {i. i < length (generate puzzle (cells s)) \<and>
                                       generate puzzle (cells s) ! i \<noteq> 0}\<rparr>)
   \<and> cells (generatePuzzle puzzle s) = generate puzzle (cells s)
   \<and> clueIndices (generatePuzzle puzzle s) =
       {i. i < length (cells (generatePuzzle puzzle s)) \<and> cells (generatePuzzle puzzle s) ! i \<noteq> 0}
   \<and> (grid_ok s \<and> length (generate puzzle (cells s)) = 81 \<longrightarrow>
        (\<forall>i < 81.
           value_text (grid (generatePuzzle puzzle s) ! i) =
             (if generate puzzle (cells s) ! i = 0 then []
              else String_num (Some (uint (generate puzzle (cells s) ! i))))
           \<and> readOnly (grid (generatePuzzle puzzle s) ! i) = (generate puzzle (cells s) ! i \<noteq> 0)
           \<and> (''clue'' \<in> set (classList (grid (generatePuzzle puzzle s) ! i))) =
               (generate puzzle (cells s) ! i \<noteq> 0)))"
proof -
  let ?g = "generate puzzle (cells s)"
  let ?s1 = "s\<lparr>cells := ?g\<rparr>"
  let ?s2 = "s\<lparr>cells := ?g, clueIndices := {i. i < length ?g \<and> ?g ! i \<noteq> 0}\<rparr>"
  have "initializeClues ?s1 = ?s1\<lparr>clueIndices := clueIndices (initializeClues ?s1)\<rparr>"
    by (simp add: initializeClues_def)
  then have clues: "initializeClues ?s1 = ?s2"
    by (simp add: initializeClues_set)
  then have order: "generatePuzzle puzzle s = refreshGrid ?s2"
    by (simp add: generatePuzzle_def)
  have effect: "value_text (grid (generatePuzzle puzzle s) ! i) =
                  (if ?g ! i = 0 then [] else String_num (Some (uint (?g ! i))))
                \<and> readOnly (grid (generatePuzzle puzzle s) ! i) = (?g ! i \<noteq> 0)
                \<and> (''clue'' \<in> set (classList (grid (generatePuzzle puzzle s) ! i))) = (?g ! i \<noteq> 0)"
    if ok: "grid_ok s" and len: "length ?g = 81" and i: "i < 81" for i
  proof -
    from ok len have ok2: "grid_ok ?s2"
      by (simp add: grid_ok_def)
    have nth: "grid (generatePuzzle puzzle s) ! i =
                 refresh_input ?g {i. i < length ?g \<and> ?g ! i \<noteq> 0} i (grid s ! i)"
      using refreshGrid_nth [OF ok2 i] by (simp add: order)
    have "value_text (grid (generatePuzzle puzzle s) ! i) =
            (if ?g ! i = 0 then [] else String_num (Some (uint (?g ! i))))"
      using grid_ok_nth [OF ok i] len i by (simp add: nth refresh_input_value)
    moreover have "readOnly (grid (generatePuzzle puzzle s) ! i) = (?g ! i \<noteq> 0)"
      using len i by (simp add: nth refresh_input_readOnly)
    moreover have "(''clue'' \<in> set (classList (grid (generatePuzzle puzzle s) ! i))) = (?g ! i \<noteq> 0)"
      using len i by (simp only: nth refresh_input_clue) simp
    ultimately show ?thesis
      by blast
  qed
  from order have "cells (generatePuzzle puzzle s) = ?g"
    and "clueIndices (generatePuzzle puzzle s) =
           {i. i < length (cells (generatePuzzle puzzle s)) \<and> cells (generatePuzzle puzzle s) ! i \<noteq> 0}"
    by (simp_all add: refreshGrid_frame)
  with order effect show ?thesis
    by blast
qed

theorem generatePuzzle_order_witness:
  "cells (generatePuzzle example_engine start_page) = 5 # replicate 80 0
   \<and> clueIndices (generatePuzzle example_engine start_page) = {0}
   \<and> value_text (grid (generatePuzzle example_engine start_page) ! 0) = ''5''
   \<and> readOnly (grid (generatePuzzle example_engine start_page) ! 0)
   \<and> ''clue'' \<in> set (classList (grid (generatePuzzle example_engine start_page) ! 0))
   \<and> value_text (grid (generatePuzzle example_engine start_page) ! 1) = []
   \<and> \<not> readOnly (grid (generatePuzzle example_engine start_page) ! 1)
   \<and> ''clue'' \<notin> set (classList (grid (generatePuzzle example_engine start_page) ! 1))"
proof -
  let ?p = "generatePuzzle example_engine start_page"
  have g: "generate example_engine (cells start_page) = 5 # replicate 80 0"
    by (simp add: example_engine_def)
  have hyp: "grid_ok start_page \<and> length (generate example_engine (cells start_page)) = 81"
    using grid_ok_start_page by (simp add: g)
  note t = generatePuzzle_order [of example_engine start_page]
  from t have "cells ?p = generate example_engine (cells start_page)"
    by blast
  then have c: "cells ?p = 5 # replicate 80 0"
    by (simp only: g)
  from t have "clueIndices ?p = {i. i < length (cells ?p) \<and> cells ?p ! i \<noteq> 0}"
    by blast
  also have "\<dots> = {0}"
    unfolding c by (auto simp: nth_Cons')
  finally have k: "clueIndices ?p = {0}" .
  from t hyp have "\<forall>i < 81.
      value_text (grid ?p ! i) =
        (if generate example_engine (cells start_page) ! i = 0 then []
         else String_num (Some (uint (generate example_engine (cells start_page) ! i))))
      \<and> readOnly (grid ?p ! i) = (generate example_engine (cells start_page) ! i \<noteq> 0)
      \<and> (''clue'' \<in> set (classList (grid ?p ! i))) =
          (generate example_engine (cells start_page) ! i \<noteq> 0)"
    by blast
  then have all: "\<forall>i < 81.
      value_text (grid ?p ! i) =
        (if (5 # replicate 80 0 :: cells) ! i = 0 then []
         else String_num (Some (uint ((5 # replicate 80 0 :: cells) ! i))))
      \<and> readOnly (grid ?p ! i) = ((5 # replicate 80 0 :: cells) ! i \<noteq> 0)
      \<and> (''clue'' \<in> set (classList (grid ?p ! i))) = ((5 # replicate 80 0 :: cells) ! i \<noteq> 0)"
    by (simp only: g)
  have five: "String_num (Some 5) = ''5''"
    by (simp add: String_num_def String_nat_digit digitChar_values)
  from all have "value_text (grid ?p ! 0) = ''5''" "readOnly (grid ?p ! 0)"
    "''clue'' \<in> set (classList (grid ?p ! 0))"
    by (simp_all add: five)
  moreover from all have "value_text (grid ?p ! 1) = []" "\<not> readOnly (grid ?p ! 1)"
    "''clue'' \<notin> set (classList (grid ?p ! 1))"
    by simp_all
  ultimately show ?thesis
    using c k by simp
qed

text \<open>
  C6. The Solve action leaves the clue set as it was, so after its refresh every
  position outside the clue set, also one the solver has just filled, is still
  editable and carries no clue mark.
\<close>

theorem solvePuzzle_keeps_clues:
  "clueIndices (solvePuzzle puzzle s) = clueIndices s
   \<and> (grid_ok s \<longrightarrow>
        (\<forall>i < 81. i \<notin> clueIndices s \<longrightarrow>
           \<not> readOnly (grid (solvePuzzle puzzle s) ! i) \<and>
           ''clue'' \<notin> set (classList (grid (solvePuzzle puzzle s) ! i))))"
proof (intro conjI impI allI)
  show "clueIndices (solvePuzzle puzzle s) = clueIndices s"
    by (simp add: solvePuzzle_def refreshGrid_frame)
next
  fix i
  assume ok: "grid_ok s" and i: "i < 81" and out: "i \<notin> clueIndices s"
  let ?s1 = "s\<lparr>cells := solve puzzle (cells s)\<rparr>"
  have cls: "\<forall>w \<in> set (grid ?s1). ''cell'' \<in> set (classList w)"
    using grid_ok_all_cells [OF ok] by simp
  have "i < length (grid ?s1)"
    using grid_ok_lengths [OF ok] i by simp
  then have "grid (solvePuzzle puzzle s) ! i =
               refresh_input (cells ?s1) (clueIndices ?s1) i (grid ?s1 ! i)"
    using refresh_loop_nth [OF cls, of i "cells ?s1" "clueIndices ?s1" 0]
    by (simp add: solvePuzzle_def refreshGrid_def)
  then show "\<not> readOnly (grid (solvePuzzle puzzle s) ! i)"
    and "''clue'' \<notin> set (classList (grid (solvePuzzle puzzle s) ! i))"
    using out by (simp_all only: refresh_input_readOnly refresh_input_clue) simp_all
qed

theorem solvePuzzle_keeps_clues_witness:
  "clueIndices (solvePuzzle example_engine example_page) = {0}
   \<and> \<not> readOnly (grid (solvePuzzle example_engine example_page) ! 1)
   \<and> ''clue'' \<notin> set (classList (grid (solvePuzzle example_engine example_page) ! 1))"
  using solvePuzzle_keeps_clues [of example_engine example_page] grid_ok_example_page
  by (simp add: clueIndices_example_page)

text \<open>
  C7. The Verify action picks its notification by a three-way rule: the error-style
  mistake message when \<^verbatim>\<open>verify()\<close> is false; the success-style solved message when
  it is true and every board cell is non-zero; the success-style in-progress message
  when it is true and some board cell is zero.
\<close>

theorem verifyPuzzle_three_way:
  "(\<not> verify puzzle (cells s) \<longrightarrow>
      notification_text (verifyPuzzle puzzle s) = ''Oops! There is a mistake somewhere.'' \<and>
      notification_classes (verifyPuzzle puzzle s) = [''visible'', ''error''])
   \<and> (verify puzzle (cells s) \<and> (\<forall>i < length (cells s). cells s ! i \<noteq> 0) \<longrightarrow>
      notification_text (verifyPuzzle puzzle s) = ''Congratulations! You solved it.'' \<and>
      notification_classes (verifyPuzzle puzzle s) = [''visible'', ''success''])
   \<and> (verify puzzle (cells s) \<and> (\<exists>i < length (cells s). cells s ! i = 0) \<longrightarrow>
      notification_text (verifyPuzzle puzzle s) = ''Looks good so far!'' \<and>
      notification_classes (verifyPuzzle puzzle s) = [''visible'', ''success''])"
proof -
  have every: "list_all (\<lambda>x. x \<noteq> 0) (cells s) \<longleftrightarrow> (\<forall>i < length (cells s). cells s ! i \<noteq> 0)"
    by (simp add: list_all_length)
  show ?thesis
    using every by (auto simp: verifyPuzzle_def Let_def classList_add_def)
qed

theorem verifyPuzzle_three_way_witness:
  "notification_text (verifyPuzzle (example_engine\<lparr>verify := (\<lambda>cs. False)\<rparr>) example_page)
     = ''Oops! There is a mistake somewhere.''
   \<and> notification_classes (verifyPuzzle (example_engine\<lparr>verify := (\<lambda>cs. False)\<rparr>) example_page)
     = [''visible'', ''error'']
   \<and> notification_text (verifyPuzzle example_engine (example_page\<lparr>cells := replicate 81 1\<rparr>))
     = ''Congratulations! You solved it.''
   \<and> notification_text (verifyPuzzle example_engine example_page) = ''Looks good so far!''
   \<and> notification_classes (verifyPuzzle example_engine example_page) = [''visible'', ''success'']"
proof -
  have z: "\<exists>i < length (cells example_page). cells example_page ! i = 0"
    by (rule exI [of _ 1]) (simp add: cells_example_page)
  have v: "verify example_engine cs" for cs
    by (simp add: example_engine_def)
  show ?thesis
    using verifyPuzzle_three_way [of "example_engine\<lparr>verify := (\<lambda>cs. False)\<rparr>" example_page]
      verifyPuzzle_three_way [of example_engine "example_page\<lparr>cells := replicate 81 1\<rparr>"]
      verifyPuzzle_three_way [of example_engine example_page] z v
    by simp
qed

text \<open>
  C8. The Verify action changes neither the board, nor the clue set, nor any input of
  the grid: the page after it is the page before it with a new notification text, new
  notification classes and one more pending timer, of 2500 ms, whose only effect when
  it fires is to clear the notification classes.
\<close>

theorem verifyPuzzle_frame:
  "cells (verifyPuzzle puzzle s) = cells s
   \<and> clueIndices (verifyPuzzle puzzle s) = clueIndices s
   \<and> grid (verifyPuzzle puzzle s) = grid s
   \<and> timers (verifyPuzzle puzzle s) = timers s @ [(2500, ClearNotificationClass)]
   \<and> verifyPuzzle puzzle s =
       s\<lparr>notification_text := notification_text (verifyPuzzle puzzle s),
         notification_classes := notification_classes (verifyPuzzle puzzle s),
         timers := timers s @ [(2500, ClearNotificationClass)]\<rparr>
   \<and> fire_timer ClearNotificationClass (verifyPuzzle puzzle s) =
       (verifyPuzzle puzzle s)\<lparr>notification_classes := []\<rparr>"
  by (simp add: verifyPuzzle_def Let_def fire_timer_def split: prod.splits)

section \<open>Facts about typing into a cell\<close>

lemma rejected_empty: "value_text inp = [] \<Longrightarrow> rejected inp"
  by (simp add: rejected_def newValue_of_def substr_def parseInt_Nil Number_isInteger_def)

lemma updateCell_target_empty:
  "value_text inp = [] \<Longrightarrow> updateCell_target inp cs = (inp, cs)"
  by (simp add: updateCell_target_rejected [OF rejected_empty] substr_def)

lemma updateCell_target_single_digit:
  assumes "\<not> rejected inp"
  shows "single_digit_text (value_text (fst (updateCell_target inp cs)))"
proof -
  from assms obtain n where n: "newValue_of inp = Some n" "1 \<le> n" "n \<le> 9"
    by (auto simp: rejected_iff)
  then have "nat n \<in> {1 .. 9}"
    by auto
  then show ?thesis
    unfolding updateCell_target_accepted [OF n] single_digit_text_def by auto
qed

lemma rejected_insert_restores:
  assumes "length (value_text inp) \<le> 1" and "a \<le> b" and "b \<le> length (value_text inp)"
    and "rejected (browser_edit a b [c] inp)"
  shows "value_text (fst (updateCell_target (browser_edit a b [c] inp) cs)) =
           (if length (value_text (browser_edit a b [c] inp)) = 1 then '''' else value_text inp)"
proof (cases "value_text inp")
  case Nil
  with assms show ?thesis
    by (simp add: updateCell_target_rejected browser_edit_def)
next
  case (Cons x xs)
  with assms(1) have p: "value_text inp = [x]"
    by simp
  with assms(2,3) consider "a = 0" "b = 0" | "a = 0" "b = 1" | "a = 1" "b = 1"
    by (cases a; cases b) auto
  then show ?thesis
  proof cases
    case 1
    with p assms(4) show ?thesis
      by (simp add: updateCell_target_rejected browser_edit_def substr_def)
  next
    case 2
    with p assms(4) show ?thesis
      by (simp add: updateCell_target_rejected browser_edit_def)
  next
    case 3
    with p assms(4) show ?thesis
      by (simp add: updateCell_target_rejected browser_edit_def substr_def)
  qed
qed

lemma delete_shows_empty:
  assumes "length (value_text inp) \<le> 1" and "a \<le> b" and "b \<le> length (value_text inp)"
    and "rejected (browser_edit a b [] inp)"
  shows "value_text (fst (updateCell_target (browser_edit a b [] inp) cs)) = []"
proof -
  have "length (value_text (browser_edit a b [] inp)) \<le> 1"
    using assms(1-3) by (simp add: browser_edit_def)
  then consider "value_text (browser_edit a b [] inp) = []"
    | "length (value_text (browser_edit a b [] inp)) = 1"
    by (cases "value_text (browser_edit a b [] inp)") auto
  then show ?thesis
  proof cases
    case 1
    then show ?thesis by (simp add: updateCell_target_empty)
  next
    case 2
    then show ?thesis by (simp add: updateCell_target_rejected [OF assms(4)])
  qed
qed

text \<open>
  Edits of at most one code unit (typing, replacing the selection by a typed character,
  backspace and delete) keep a cell that shows nothing or one digit from 1 to 9 in
  that form.
\<close>

lemma typing_keeps_single_digit:
  assumes "single_digit_text (value_text inp)" and "a \<le> b" and "b \<le> length (value_text inp)"
    and "length t \<le> 1"
  shows "single_digit_text (value_text (fst (updateCell_target (browser_edit a b t inp) cs)))"
proof (cases "rejected (browser_edit a b t inp)")
  case False
  then show ?thesis by (rule updateCell_target_single_digit)
next
  case True
  from assms(1) have len: "length (value_text inp) \<le> 1"
    by (auto simp: single_digit_text_def)
  show ?thesis
  proof (cases t)
    case Nil
    with True delete_shows_empty [OF len assms(2,3)] show ?thesis
      by (simp add: single_digit_text_def)
  next
    case (Cons c cs')
    with assms(4) have "t = [c]" by simp
    with True rejected_insert_restores [OF len assms(2,3)] assms(1) show ?thesis
      by (auto simp: single_digit_text_def)
  qed
qed

section \<open>The claims about rejected edits\<close>

text \<open>
  C2. The displayed text after the handler is not always empty or one digit from 1 to
  9: on the page as it starts, pasting the two letters ab into the empty cell at index
  1 raises an input event with the raw text ab and the cursor at 2, and the handler
  leaves the cell showing the letter a.
\<close>

theorem paste_leaves_letter:
  "value_text (grid (input_event 1 0 0 ''ab'' start_page) ! 1) = ''a''
   \<and> \<not> single_digit_text (value_text (grid (input_event 1 0 0 ''ab'' start_page) ! 1))"
proof -
  have "value_text (grid (input_event 1 0 0 ''ab'' start_page) ! 1) = ''a''"
    by code_simp
  moreover have "\<not> single_digit_text ''a''"
    by code_simp
  ultimately show ?thesis by simp
qed

text \<open>
  C3, as stated, at the backspace that empties a cell showing 7: the event is rejected
  and the raw text has length 0, not 1, yet the cell is left empty and not restored
  to 7.
\<close>

theorem backspace_not_restored:
  "\<not> (rejected (browser_edit 0 1 [] showing7) \<longrightarrow>
        value_text (fst (updateCell_target (browser_edit 0 1 [] showing7) (replicate 81 0))) =
          (if length (value_text (browser_edit 0 1 [] showing7)) = 1 then []
           else value_text showing7))"
proof -
  have e: "value_text (browser_edit 0 1 [] showing7) = []"
    by (simp add: browser_edit_def showing7_def)
  have r: "rejected (browser_edit 0 1 [] showing7)"
    using e by (rule rejected_empty)
  have v: "value_text (fst (updateCell_target (browser_edit 0 1 [] showing7) (replicate 81 0))) = []"
    by (simp only: updateCell_target_empty [OF e] fst_conv e)
  have l: "length (value_text (browser_edit 0 1 [] showing7)) \<noteq> 1"
    by (simp only: e) simp
  have p: "value_text showing7 \<noteq> []"
    by (simp add: showing7_def)
  from r v l p show ?thesis
    by (simp only: if_False) simp
qed

lemma newValue_of_insert:
  assumes "length (value_text inp) \<le> 1" and "a \<le> b" and "b \<le> length (value_text inp)"
  shows "newValue_of (browser_edit a b [c] inp) = parseInt [c]"
proof (cases "value_text inp")
  case Nil
  with assms show ?thesis
    by (simp add: newValue_of_def browser_edit_def substr_def)
next
  case (Cons x xs)
  with assms(1) have p: "value_text inp = [x]"
    by simp
  with assms(2,3) consider "a = 0" | "a = 1" "b = 1"
    by (cases a; cases b) auto
  then show ?thesis
  proof cases
    case 1
    with p show ?thesis
      by (cases b) (simp_all add: newValue_of_def browser_edit_def substr_def)
  next
    case 2
    with p show ?thesis
      by (simp add: newValue_of_def browser_edit_def substr_def)
  qed
qed

text \<open>
  The text that the reject branch restores is found by position only, whatever the
  code units are: after one unit \<open>c\<close> has gone into a text \<open>p\<close> of at most one unit with
  nothing selected, the unit at \<^verbatim>\<open>length - selectionStart\<close> is the one of \<open>p\<close>.
\<close>

lemma restored_by_position:
  assumes "length p \<le> 1" and "a \<le> length p"
  shows "(if length (take a p @ [c] @ drop a p) = 1 then []
          else substr (take a p @ [c] @ drop a p)
                 (int (length (take a p @ [c] @ drop a p)) - int (a + 1)) 1) = p"
proof (cases p)
  case Nil
  then show ?thesis by simp
next
  case (Cons x xs)
  with assms(1) have p: "p = [x]"
    by simp
  with assms(2) consider "a = 0" | "a = 1"
    by (cases a) auto
  then show ?thesis
    using p by cases (simp_all add: substr_def)
qed

text \<open>
  C3, amended. The browser inserts one code unit \<open>c\<close> into a cell showing at most one
  code unit, at the cursor (\<open>a = b\<close>) or in place of the selected character
  (\<open>a < b\<close>); the extracted character is then \<open>c\<close>. When the handler rejects the event,
  the displayed text becomes empty if the raw text has length 1 after the edit and the
  prior text otherwise: with nothing selected it is the prior text, with the character
  selected and replaced it is empty. When the edit inserts nothing (backspace, delete),
  a rejected event leaves the cell empty.
\<close>

theorem rejected_typing_restores:
  assumes "length (value_text inp) \<le> 1" and "a \<le> b" and "b \<le> length (value_text inp)"
  shows "newValue_of (browser_edit a b [c] inp) = parseInt [c]
       \<and> (rejected (browser_edit a b [c] inp) \<longrightarrow>
            value_text (fst (updateCell_target (browser_edit a b [c] inp) cs)) =
              (if length (value_text (browser_edit a b [c] inp)) = 1 then [] else value_text inp)
            \<and> (a = b \<longrightarrow>
                 value_text (fst (updateCell_target (browser_edit a b [c] inp) cs)) = value_text inp)
            \<and> (a < b \<longrightarrow>
                 value_text (fst (updateCell_target (browser_edit a b [c] inp) cs)) = []))
       \<and> (rejected (browser_edit a b [] inp) \<longrightarrow>
            value_text (fst (updateCell_target (browser_edit a b [] inp) cs)) = [])"
proof -
  have n: "newValue_of (browser_edit a b [c] inp) = parseInt [c]"
    using assms by (rule newValue_of_insert)
  have v: "value_text (fst (updateCell_target (browser_edit a b [c] inp) cs)) =
             (if length (value_text (browser_edit a b [c] inp)) = 1 then [] else value_text inp)"
    if "rejected (browser_edit a b [c] inp)"
    using assms that by (rule rejected_insert_restores)
  have collapsed: "length (value_text (browser_edit a b [c] inp)) = 1 \<longrightarrow> value_text inp = []"
    if "a = b"
    using assms that by (simp add: browser_edit_def)
  have selected: "length (value_text (browser_edit a b [c] inp)) = 1" if "a < b"
    using assms that by (simp add: browser_edit_def)
  have d: "value_text (fst (updateCell_target (browser_edit a b [] inp) cs)) = []"
    if "rejected (browser_edit a b [] inp)"
    using assms that by (rule delete_shows_empty)
  from n v collapsed selected d show ?thesis
    by auto
qed

theorem rejected_typing_restores_witness:
  "rejected (browser_edit 1 1 ''x'' showing7)
   \<and> value_text (fst (updateCell_target (browser_edit 1 1 ''x'' showing7) (replicate 81 0))) = ''7''
   \<and> rejected (browser_edit 0 0 ''x'' showing7)
   \<and> value_text (fst (updateCell_target (browser_edit 0 0 ''x'' showing7) (replicate 81 0))) = ''7''
   \<and> rejected (browser_edit 0 1 ''x'' showing7)
   \<and> value_text (fst (updateCell_target (browser_edit 0 1 ''x'' showing7) (replicate 81 0))) = []
   \<and> rejected (browser_edit 0 1 [] showing7)
   \<and> value_text (fst (updateCell_target (browser_edit 0 1 [] showing7) (replicate 81 0))) = []"
proof -
  have h: "length (value_text showing7) \<le> 1" "(1 :: nat) \<le> 1" "1 \<le> length (value_text showing7)"
    "(0 :: nat) \<le> 1" "(0 :: nat) \<le> 0" "0 \<le> length (value_text showing7)"
    by (simp_all add: showing7_def)
  have x: "parseInt ''x'' = None"
    by (simp add: parseInt_single isDigit_def)
  have rx: "rejected (browser_edit a b ''x'' showing7)"
    if "a \<le> b" "b \<le> length (value_text showing7)" for a b
    using rejected_typing_restores [OF h(1) that, of "CHR ''x''"] x
    by (simp add: rejected_iff)
  have r11: "rejected (browser_edit 1 1 ''x'' showing7)"
    using h(2,3) by (rule rx)
  have r00: "rejected (browser_edit 0 0 ''x'' showing7)"
    using h(5,6) by (rule rx)
  have r01: "rejected (browser_edit 0 1 ''x'' showing7)"
    using h(4,3) by (rule rx)
  have rd: "rejected (browser_edit 0 1 [] showing7)"
    by (rule rejected_empty) (simp add: browser_edit_def showing7_def)
  from rejected_typing_restores [OF h(1,2,3), of "CHR ''x''" "replicate 81 0"] r11
  have "value_text (fst (updateCell_target (browser_edit 1 1 ''x'' showing7) (replicate 81 0)))
          = value_text showing7"
    by blast
  moreover from rejected_typing_restores [OF h(1,5,6), of "CHR ''x''" "replicate 81 0"] r00
  have "value_text (fst (updateCell_target (browser_edit 0 0 ''x'' showing7) (replicate 81 0)))
          = value_text showing7"
    by blast
  moreover have "(0 :: nat) < 1"
    by simp
  with rejected_typing_restores [OF h(1,4,3), of "CHR ''x''" "replicate 81 0"] r01
  have "value_text (fst (updateCell_target (browser_edit 0 1 ''x'' showing7) (replicate 81 0))) = []"
    by blast
  moreover from rejected_typing_restores [OF h(1,4,3), of "CHR ''x''" "replicate 81 0"] rd
  have "value_text (fst (updateCell_target (browser_edit 0 1 [] showing7) (replicate 81 0))) = []"
    by blast
  moreover have "value_text showing7 = ''7''"
    by (simp add: showing7_def)
  ultimately show ?thesis
    using r11 r00 r01 rd by simp
qed

section \<open>What the handler writes\<close>

lemma updateCell_target_cells:
  "snd (updateCell_target inp cs) = cs \<or>
   (\<exists>k n. k < length cs \<and> 1 \<le> n \<and> n \<le> 9 \<and> snd (updateCell_target inp cs) = cs[k := word_of_int n])"
proof (cases "rejected inp")
  case True
  then show ?thesis by (simp add: updateCell_target_rejected)
next
  case False
  then obtain n where n: "newValue_of inp = Some n" "1 \<le> n" "n \<le> 9"
    by (auto simp: rejected_iff)
  show ?thesis
  proof (cases "Number_str (dataset_index inp)")
    case None
    then show ?thesis by (simp add: updateCell_target_accepted [OF n] cells_set_def)
  next
    case (Some k)
    show ?thesis
    proof (cases "0 \<le> k \<and> k < int (length cs)")
      case True
      then have "nat k < length cs" by (simp add: nat_less_iff)
      moreover have "snd (updateCell_target inp cs) = cs[nat k := word_of_int n]"
        using Some True by (simp add: updateCell_target_accepted [OF n] cells_set_def ToUint8_def)
      ultimately show ?thesis using n by blast
    next
      case False
      with Some have "snd (updateCell_target inp cs) = cs"
        by (auto simp: updateCell_target_accepted [OF n] cells_set_def)
      then show ?thesis by simp
    qed
  qed
qed

lemma updateCell_unfold:
  "j < length (grid s) \<Longrightarrow>
   updateCell j s = s\<lparr>grid := (grid s)[j := fst (updateCell_target (grid s ! j) (cells s))],
                      cells := snd (updateCell_target (grid s ! j) (cells s))\<rparr>"
  by (simp add: updateCell_def split: prod.splits)

lemma updateCell_target_keeps:
  "classList (fst (updateCell_target inp cs)) = classList inp"
  "dataset_index (fst (updateCell_target inp cs)) = dataset_index inp"
  "length (snd (updateCell_target inp cs)) = length cs"
  by (auto simp: updateCell_target_def Let_def cells_set_def split: option.splits)

lemma updateCell_grid_ok:
  assumes "grid_ok s"
  shows "grid_ok (updateCell j s)"
proof (cases "j < length (grid s)")
  case False
  with assms show ?thesis by (simp add: updateCell_def)
next
  case True
  have "''cell'' \<in> set (classList (grid (updateCell j s) ! i)) \<and>
        dataset_index (grid (updateCell j s) ! i) = String_num (Some (int i))" if "i < 81" for i
    using grid_ok_nth [OF assms that] True
    by (cases "i = j") (simp_all add: updateCell_unfold updateCell_target_keeps)
  then show ?thesis
    using grid_ok_lengths [OF assms] True
    by (simp add: grid_ok_def updateCell_unfold updateCell_target_keeps)
qed

lemma updateCell_cell_values:
  assumes "i < length (cells s)"
  shows "cells (updateCell j s) ! i = cells s ! i \<or>
         (1 \<le> uint (cells (updateCell j s) ! i) \<and> uint (cells (updateCell j s) ! i) \<le> 9)"
proof (cases "j < length (grid s)")
  case False
  then show ?thesis by (simp add: updateCell_def)
next
  case True
  then have c: "cells (updateCell j s) = snd (updateCell_target (grid s ! j) (cells s))"
    by (simp add: updateCell_unfold)
  from updateCell_target_cells [of "grid s ! j" "cells s"]
  consider "cells (updateCell j s) = cells s"
    | k n where "k < length (cells s)" "1 \<le> n" "n \<le> 9"
        "cells (updateCell j s) = (cells s)[k := word_of_int n]"
    unfolding c by blast
  then show ?thesis
  proof cases
    case 1
    then show ?thesis by simp
  next
    case 2
    then have "uint (word_of_int n :: 8 word) = n"
      by (simp add: uint_word_of_int)
    with 2 assms show ?thesis
      by (cases "i = k") simp_all
  qed
qed

text \<open>The three actions keep the grid in the form \<^verbatim>\<open>initializeGrid\<close> gave it, as long as the engine keeps the 81 cells.\<close>

lemma grid_ok_actions:
  assumes "grid_ok s"
  shows "length (generate puzzle (cells s)) = 81 \<Longrightarrow> grid_ok (generatePuzzle puzzle s)"
    and "length (solve puzzle (cells s)) = 81 \<Longrightarrow> grid_ok (solvePuzzle puzzle s)"
    and "grid_ok (verifyPuzzle puzzle s)"
proof -
  assume "length (generate puzzle (cells s)) = 81"
  with assms have "grid_ok (initializeClues (s\<lparr>cells := generate puzzle (cells s)\<rparr>))"
    by (simp add: grid_ok_def initializeClues_def)
  then show "grid_ok (generatePuzzle puzzle s)"
    unfolding generatePuzzle_def by (rule refreshGrid_grid_ok)
next
  assume "length (solve puzzle (cells s)) = 81"
  with assms have "grid_ok (s\<lparr>cells := solve puzzle (cells s)\<rparr>)"
    by (simp add: grid_ok_def)
  then show "grid_ok (solvePuzzle puzzle s)"
    unfolding solvePuzzle_def by (rule refreshGrid_grid_ok)
next
  show "grid_ok (verifyPuzzle puzzle s)"
    using assms by (simp add: grid_ok_def verifyPuzzle_def Let_def split: prod.splits)
qed

lemma grid_ok_backspaced_page: "grid_ok backspaced_page"
  using grid_ok_example_page
  by (auto simp: grid_ok_def backspaced_page_def nth_list_update)

lemma backspaced_page_fields:
  "value_text (grid backspaced_page ! 1) = []" "cells backspaced_page ! 1 = 7"
  using grid_ok_lengths [OF grid_ok_example_page]
  by (simp_all add: backspaced_page_def)

text \<open>
  C10. No edit writes 0 into the board: the handler either leaves the board as it is
  or stores one value from 1 to 9 at one index. So an event that arrives with the raw
  text empty (the user has cleared the cell) leaves the board unchanged and the cell
  empty, and a full grid refresh after it shows the digit the board still holds at
  that index.
\<close>

theorem updateCell_never_writes_zero:
  "(cells (updateCell j s) = cells s \<or>
      (\<exists>k n. k < length (cells s) \<and> 1 \<le> n \<and> n \<le> 9 \<and>
             cells (updateCell j s) = (cells s)[k := word_of_int n]))
   \<and> (\<forall>i < length (cells s).
        cells (updateCell j s) ! i = cells s ! i \<or>
        (1 \<le> uint (cells (updateCell j s) ! i) \<and> uint (cells (updateCell j s) ! i) \<le> 9))
   \<and> (j < length (grid s) \<and> value_text (grid s ! j) = [] \<longrightarrow>
        cells (updateCell j s) = cells s \<and> value_text (grid (updateCell j s) ! j) = [])
   \<and> (grid_ok s \<and> j < 81 \<and> value_text (grid s ! j) = [] \<and> cells s ! j \<noteq> 0 \<and> cells s ! j \<le> 9 \<longrightarrow>
        value_text (grid (refreshGrid (updateCell j s)) ! j) = [digitChar (unat (cells s ! j))])"
proof (intro conjI impI allI)
  fix i
  assume "i < length (cells s)"
  then show "cells (updateCell j s) ! i = cells s ! i \<or>
        (1 \<le> uint (cells (updateCell j s) ! i) \<and> uint (cells (updateCell j s) ! i) \<le> 9)"
    by (rule updateCell_cell_values)
next
  show "cells (updateCell j s) = cells s \<or>
      (\<exists>k n. k < length (cells s) \<and> 1 \<le> n \<and> n \<le> 9 \<and>
             cells (updateCell j s) = (cells s)[k := word_of_int n])"
  proof (cases "j < length (grid s)")
    case True
    then show ?thesis
      using updateCell_target_cells [of "grid s ! j" "cells s"] by (simp add: updateCell_unfold)
  next
    case False
    then show ?thesis by (simp add: updateCell_def)
  qed
next
  assume a: "j < length (grid s) \<and> value_text (grid s ! j) = []"
  then show "cells (updateCell j s) = cells s"
    by (simp add: updateCell_unfold updateCell_target_empty)
  from a show "value_text (grid (updateCell j s) ! j) = []"
    by (simp add: updateCell_unfold updateCell_target_empty)
next
  assume a: "grid_ok s \<and> j < 81 \<and> value_text (grid s ! j) = [] \<and> cells s ! j \<noteq> 0 \<and> cells s ! j \<le> 9"
  then have ok: "grid_ok s" and j: "j < 81" and e: "value_text (grid s ! j) = []"
    and nz: "cells s ! j \<noteq> 0" and le: "cells s ! j \<le> 9"
    by simp_all
  have jl: "j < length (grid s)"
    using grid_ok_lengths [OF ok] j by simp
  have same: "updateCell j s = s"
    using jl e by (simp add: updateCell_unfold updateCell_target_empty)
  have "value_text (grid (refreshGrid s) ! j) = String_num (Some (uint (cells s ! j)))"
    using grid_ok_nth [OF ok j] grid_ok_lengths [OF ok] j nz
    by (simp add: refreshGrid_nth [OF ok j] refresh_input_value)
  then show "value_text (grid (refreshGrid (updateCell j s)) ! j) = [digitChar (unat (cells s ! j))]"
    using le by (simp add: same String_num_cell)
qed

theorem updateCell_never_writes_zero_witness:
  "cells (updateCell 1 backspaced_page) = cells backspaced_page
   \<and> cells backspaced_page ! 1 = 7
   \<and> value_text (grid (updateCell 1 backspaced_page) ! 1) = []
   \<and> value_text (grid (refreshGrid (updateCell 1 backspaced_page)) ! 1) = ''7''"
proof -
  have l: "1 < length (grid backspaced_page)"
    using grid_ok_lengths [OF grid_ok_backspaced_page] by simp
  have w: "(7 :: 8 word) \<noteq> 0" "(7 :: 8 word) \<le> 9" "unat (7 :: 8 word) = 7"
    by simp_all
  from updateCell_never_writes_zero [of 1 backspaced_page] l grid_ok_backspaced_page w
    backspaced_page_fields
  show ?thesis
    by (simp add: digitChar_values)
qed

end
